theory Spec2Isabelle
  imports Complex_Main
begin

section \<open>Tables\<close>

text \<open>
  The dashboard (\<^verbatim>\<open>src/data_visualization/dashboard.py\<close>) reads six backend
  tables into pandas data frames and renders KPI cards from them. A cell is what a JSON
  row of the backend can hold; integers are unbounded, as Python's are. A missing value
  (\<^verbatim>\<open>None\<close>, \<^verbatim>\<open>NaN\<close>) is \<open>VNull\<close>.
\<close>

datatype cell = VNull | VBool bool | VInt int | VStr string

type_synonym json_row = "(string \<times> cell) list"

record DataFrame =
  columns :: "string list"
  rows :: "json_row list"

datatype exn = Exception string | KeyError string | TypeError | AttributeError

fun str :: "exn \<Rightarrow> string" where
  "str (Exception m) = m"
| "str (KeyError k) = k"
| "str TypeError = ''TypeError''"
| "str AttributeError = ''AttributeError''"

text \<open>\<^verbatim>\<open>Series.unique()\<close>: the distinct values, in order of first appearance.\<close>

definition unique :: "'a list \<Rightarrow> 'a list" where
  "unique xs = rev (remdups (rev xs))"

definition get_cell :: "json_row \<Rightarrow> string \<Rightarrow> cell" where
  "get_cell r c = (case map_of r c of None \<Rightarrow> VNull | Some v \<Rightarrow> v)"

text \<open>
  \<^verbatim>\<open>pd.DataFrame(data.data)\<close> on a list of JSON objects: the columns are the keys
  in order of first appearance, and a row that lacks a key holds a missing value there.
  \<^verbatim>\<open>pd.DataFrame()\<close> is the frame of no rows and no columns.
\<close>

definition pd_DataFrame :: "json_row list \<Rightarrow> DataFrame" where
  "pd_DataFrame recs =
     (let cols = unique (concat (map (map fst) recs))
      in \<lparr>columns = cols, rows = map (\<lambda>r. map (\<lambda>c. (c, get_cell r c)) cols) recs\<rparr>)"

text \<open>\<^verbatim>\<open>df.empty\<close>: some axis has length 0. \<^verbatim>\<open>len(df)\<close>: the number of rows.\<close>

definition empty_df :: "DataFrame \<Rightarrow> bool" where
  "empty_df df = (columns df = [] \<or> rows df = [])"

definition len :: "DataFrame \<Rightarrow> nat" where
  "len df = length (rows df)"

text \<open>\<^verbatim>\<open>df[c]\<close>: the column, or \<^verbatim>\<open>KeyError\<close> when the frame has no such column.\<close>

definition getitem :: "DataFrame \<Rightarrow> string \<Rightarrow> exn + cell list" where
  "getitem df c =
     (if c \<in> set (columns df) then Inr (map (\<lambda>r. get_cell r c) (rows df))
      else Inl (KeyError c))"

section \<open>Loaders\<close>

text \<open>
  The process environment holds the two credentials; \<^verbatim>\<open>not SUPABASE_URL\<close> is true
  of an unset variable and of the empty string.
\<close>

record env =
  SUPABASE_URL :: "string option"
  SUPABASE_KEY :: "string option"

definition falsy :: "string option \<Rightarrow> bool" where
  "falsy v = (v = None \<or> v = Some [])"

text \<open>
  What a run does beyond computing values: the \<^verbatim>\<open>st.error\<close> messages put on the
  page, the backend calls made (one entry, the table's name, for each
  \<^verbatim>\<open>create_client(...).table(t).select("*").execute()\<close> attempted), and the store of
  \<^verbatim>\<open>st.cache_data\<close>, keyed by the function's name only since no loader has a
  parameter. A cache entry holds the returned frame and the messages the call displayed,
  which a cache hit displays again.
\<close>

record app =
  shown :: "string list"
  backend_calls :: "string list"
  cache :: "(string \<times> string list \<times> DataFrame) list"

text \<open>
  The backend answers the \<open>n\<close>-th call of the process for a table with rows or by
  raising; two calls for the same table need not agree.
\<close>

type_synonym backend = "nat \<Rightarrow> string \<Rightarrow> exn + json_row list"

text \<open>\<^verbatim>\<open>st.stop()\<close> ends the script run; a loader otherwise returns its frame.\<close>

datatype 'a outcome = Returned 'a | Stopped

definition st_error :: "string \<Rightarrow> app \<Rightarrow> app" where
  "st_error m s = s\<lparr>shown := shown s @ [m]\<rparr>"

text \<open>The body of every loader's \<^verbatim>\<open>try\<close>: client, query, conversion.\<close>

definition select_all :: "backend \<Rightarrow> string \<Rightarrow> app \<Rightarrow> (exn + DataFrame) \<times> app" where
  "select_all B t s =
     ((case B (length (backend_calls s)) t of
         Inl e \<Rightarrow> Inl e
       | Inr recs \<Rightarrow> Inr (pd_DataFrame recs)),
      s\<lparr>backend_calls := backend_calls s @ [t]\<rparr>)"

text \<open>
  The decorator \<^verbatim>\<open>@st.cache_data\<close> without a time to live: a hit returns the stored
  frame and runs nothing; a miss runs the body and stores what it returned. A body that
  ends the run stores nothing.
\<close>

definition cache_data ::
  "string \<Rightarrow> (app \<Rightarrow> DataFrame outcome \<times> app) \<Rightarrow> app \<Rightarrow> DataFrame outcome \<times> app" where
  "cache_data f body s =
     (case map_of (cache s) f of
        Some (msgs, df) \<Rightarrow> (Returned df, s\<lparr>shown := shown s @ msgs\<rparr>)
      | None \<Rightarrow>
         (case body s of
            (Returned df, s') \<Rightarrow>
              (Returned df,
               s'\<lparr>cache := (f, drop (length (shown s)) (shown s'), df) # cache s'\<rparr>)
          | (Stopped, s') \<Rightarrow> (Stopped, s')))"

definition load_projects_body :: "env \<Rightarrow> backend \<Rightarrow> app \<Rightarrow> DataFrame outcome \<times> app" where
  "load_projects_body E B s =
     (if falsy (SUPABASE_URL E) \<or> falsy (SUPABASE_KEY E) then
        (Stopped, st_error ''Please set SUPABASE_URL and SUPABASE_KEY in your .env file'' s)
      else
        (case select_all B ''project'' s of
           (Inr df, s') \<Rightarrow> (Returned df, s')
         | (Inl e, s') \<Rightarrow>
             (Returned (pd_DataFrame []),
              st_error (''Error loading project data: '' @ str e) s')))"

text \<open>
  The five other loaders differ in the table's name only: no credentials or a failed
  fetch gives \<^verbatim>\<open>pd.DataFrame()\<close> and nothing on the page.
\<close>

definition load_secondary_body ::
  "string \<Rightarrow> env \<Rightarrow> backend \<Rightarrow> app \<Rightarrow> DataFrame outcome \<times> app" where
  "load_secondary_body t E B s =
     (if falsy (SUPABASE_URL E) \<or> falsy (SUPABASE_KEY E) then
        (Returned (pd_DataFrame []), s)
      else
        (case select_all B t s of
           (Inr df, s') \<Rightarrow> (Returned df, s')
         | (Inl e, s') \<Rightarrow> (Returned (pd_DataFrame []), s')))"

definition load_projects :: "env \<Rightarrow> backend \<Rightarrow> app \<Rightarrow> DataFrame outcome \<times> app" where
  "load_projects E B = cache_data ''load_projects'' (load_projects_body E B)"

definition load_members :: "env \<Rightarrow> backend \<Rightarrow> app \<Rightarrow> DataFrame outcome \<times> app" where
  "load_members E B = cache_data ''load_members'' (load_secondary_body ''member'' E B)"

definition load_companies :: "env \<Rightarrow> backend \<Rightarrow> app \<Rightarrow> DataFrame outcome \<times> app" where
  "load_companies E B = cache_data ''load_companies'' (load_secondary_body ''company'' E B)"

definition load_gbms :: "env \<Rightarrow> backend \<Rightarrow> app \<Rightarrow> DataFrame outcome \<times> app" where
  "load_gbms E B = cache_data ''load_gbms'' (load_secondary_body ''gbm'' E B)"

definition load_attendance :: "env \<Rightarrow> backend \<Rightarrow> app \<Rightarrow> DataFrame outcome \<times> app" where
  "load_attendance E B = cache_data ''load_attendance'' (load_secondary_body ''attendance'' E B)"

definition load_assignments :: "env \<Rightarrow> backend \<Rightarrow> app \<Rightarrow> DataFrame outcome \<times> app" where
  "load_assignments E B = cache_data ''load_assignments'' (load_secondary_body ''assignment'' E B)"

text \<open>The six loaders under one name, for statements about each of them.\<close>

datatype loader = Projects | Members | Companies | Gbms | Attendance | Assignments

fun load :: "loader \<Rightarrow> env \<Rightarrow> backend \<Rightarrow> app \<Rightarrow> DataFrame outcome \<times> app" where
  "load Projects = load_projects"
| "load Members = load_members"
| "load Companies = load_companies"
| "load Gbms = load_gbms"
| "load Attendance = load_attendance"
| "load Assignments = load_assignments"

fun cache_key :: "loader \<Rightarrow> string" where
  "cache_key Projects = ''load_projects''"
| "cache_key Members = ''load_members''"
| "cache_key Companies = ''load_companies''"
| "cache_key Gbms = ''load_gbms''"
| "cache_key Attendance = ''load_attendance''"
| "cache_key Assignments = ''load_assignments''"

fun table_name :: "loader \<Rightarrow> string" where
  "table_name Projects = ''project''"
| "table_name Members = ''member''"
| "table_name Companies = ''company''"
| "table_name Gbms = ''gbm''"
| "table_name Attendance = ''attendance''"
| "table_name Assignments = ''assignment''"

text \<open>
  Lines 378 to 383: the six loaders run in this order. A stopped run loads nothing more.
\<close>

record tables =
  projects_df :: DataFrame
  members_df :: DataFrame
  companies_df :: DataFrame
  gbms_df :: DataFrame
  attendance_df :: DataFrame
  assignments_df :: DataFrame

definition and_then ::
  "'a outcome \<times> app \<Rightarrow> ('a \<Rightarrow> app \<Rightarrow> 'b outcome \<times> app) \<Rightarrow> 'b outcome \<times> app" where
  "and_then r k = (case r of (Stopped, s) \<Rightarrow> (Stopped, s) | (Returned x, s) \<Rightarrow> k x s)"

definition load_all :: "env \<Rightarrow> backend \<Rightarrow> app \<Rightarrow> tables outcome \<times> app" where
  "load_all E B s =
     and_then (load_projects E B s) (\<lambda>p s1.
     and_then (load_members E B s1) (\<lambda>m s2.
     and_then (load_companies E B s2) (\<lambda>c s3.
     and_then (load_gbms E B s3) (\<lambda>g s4.
     and_then (load_attendance E B s4) (\<lambda>a s5.
     and_then (load_assignments E B s5) (\<lambda>asg s6.
       (Returned \<lparr>projects_df = p, members_df = m, companies_df = c, gbms_df = g,
                  attendance_df = a, assignments_df = asg\<rparr>, s6)))))))"

section \<open>Quarter filter\<close>

text \<open>
  Python's \<^verbatim>\<open>sorted\<close> over the distinct quarter identifiers is a parameter: its order,
  and whether it raises on values that do not compare, play no part in what is proved.
  The user's choice is \<open>None\<close> for a widget left untouched, which returns its default.
\<close>

type_synonym sorter = "cell list \<Rightarrow> exn + cell list"

record multiselect =
  options :: "cell list"
  default_sel :: "cell list"

definition st_multiselect :: "multiselect \<Rightarrow> cell list option \<Rightarrow> cell list" where
  "st_multiselect w choice =
     (case choice of
        None \<Rightarrow> default_sel w
      | Some sel \<Rightarrow> filter (\<lambda>v. v \<in> set (options w)) sel)"

text \<open>The value of both \<^verbatim>\<open>options=\<close> and \<^verbatim>\<open>default=\<close> (lines 400 and 401).\<close>

definition quarter_values :: "sorter \<Rightarrow> DataFrame \<Rightarrow> exn + cell list" where
  "quarter_values srt p =
     (if ''quarter_id'' \<in> set (columns p) then
        (case getitem p ''quarter_id'' of Inl e \<Rightarrow> Inl e | Inr c \<Rightarrow> srt (unique c))
      else Inr [])"

text \<open>
  Lines 396 to 405. The widget the script puts in the first filter column, if any:
  \<open>None\<close> when the \<^verbatim>\<open>else\<close> branch runs and no multi-select is created.
\<close>

definition quarter_widget :: "sorter \<Rightarrow> DataFrame \<Rightarrow> exn + multiselect option" where
  "quarter_widget srt p =
     (if \<not> empty_df p \<and> ''quarter_id'' \<in> set (columns p) then
        (case quarter_values srt p of
           Inl e \<Rightarrow> Inl e
         | Inr opts \<Rightarrow>
            (case quarter_values srt p of
               Inl e \<Rightarrow> Inl e
             | Inr dflt \<Rightarrow> Inr (Some \<lparr>options = opts, default_sel = dflt\<rparr>)))
      else Inr None)"

definition selected_quarters :: "sorter \<Rightarrow> cell list option \<Rightarrow> DataFrame \<Rightarrow> exn + cell list" where
  "selected_quarters srt choice p =
     (case quarter_widget srt p of
        Inl e \<Rightarrow> Inl e
      | Inr None \<Rightarrow> Inr []
      | Inr (Some w) \<Rightarrow> Inr (st_multiselect w choice))"

text \<open>
  Lines 415 to 418. \<^verbatim>\<open>df[df['quarter_id'].isin(sel)]\<close> keeps the rows whose quarter is
  among the selected ones, and every column.
\<close>

definition filtered_projects :: "DataFrame \<Rightarrow> cell list \<Rightarrow> DataFrame" where
  "filtered_projects p selected =
     (if \<not> empty_df p \<and> ''quarter_id'' \<in> set (columns p) then
        (if selected \<noteq> [] then
           p\<lparr>rows := filter (\<lambda>r. get_cell r ''quarter_id'' \<in> set selected) (rows p)\<rparr>
         else p)
      else p)"

section \<open>Numbers on the page\<close>

text \<open>
  Python's floats are modelled by exact rationals. \<^verbatim>\<open>f"{x:.1f}"\<close> rounds to one
  decimal, ties to even, and keeps the sign of a negative \<open>x\<close>.
\<close>

definition digit :: "nat \<Rightarrow> char" where
  "digit n = ''0123456789'' ! (n mod 10)"

fun show_nat :: "nat \<Rightarrow> string" where
  "show_nat n = (if n < 10 then [digit n] else show_nat (n div 10) @ [digit (n mod 10)])"

declare show_nat.simps [simp del]

definition round_half_even :: "rat \<Rightarrow> int" where
  "round_half_even x =
     (let f = \<lfloor>x\<rfloor>; d = x - of_int f
      in if d < 1 / 2 then f else if 1 / 2 < d then f + 1 else if even f then f else f + 1)"

definition fmt1 :: "rat \<Rightarrow> string" where
  "fmt1 x =
     (let r = nat (round_half_even (\<bar>x\<bar> * 10))
      in (if x < 0 then ''-'' else []) @ show_nat (r div 10) @ ''.'' @ [digit (r mod 10)])"

text \<open>What \<^verbatim>\<open>st.metric\<close> is given to display: a number or a string.\<close>

datatype metric = Number int | Text string

text \<open>
  \<^verbatim>\<open>Series.sum()\<close> skips missing values and counts \<^verbatim>\<open>True\<close> as 1. On a column
  holding a string, the sum or the arithmetic done on it next raises
  \<^verbatim>\<open>TypeError\<close>; the model raises it in the sum.
\<close>

fun series_sum :: "cell list \<Rightarrow> exn + int" where
  "series_sum [] = Inr 0"
| "series_sum (VNull # cs) = series_sum cs"
| "series_sum (VBool b # cs) =
     (case series_sum cs of Inl e \<Rightarrow> Inl e | Inr n \<Rightarrow> Inr ((if b then 1 else 0) + n))"
| "series_sum (VInt i # cs) =
     (case series_sum cs of Inl e \<Rightarrow> Inl e | Inr n \<Rightarrow> Inr (i + n))"
| "series_sum (VStr s # cs) = Inl TypeError"

text \<open>
  \<^verbatim>\<open>Series.mean()\<close>; the source calls it on a series of length above 0 only.
\<close>

definition mean :: "int list \<Rightarrow> rat" where
  "mean xs = of_int (sum_list xs) / of_nat (length xs)"

text \<open>
  \<^verbatim>\<open>df.groupby(key)\<close>: one group for each distinct value of the key that is not
  missing. pandas orders the groups by key; the model keeps the order of first
  appearance, which no mean or count depends on. A frame without the key column raises
  \<^verbatim>\<open>KeyError\<close>.
\<close>

definition group_keys :: "DataFrame \<Rightarrow> string \<Rightarrow> cell list" where
  "group_keys df key = filter (\<lambda>k. k \<noteq> VNull) (unique (map (\<lambda>r. get_cell r key) (rows df)))"

definition groupby_size :: "DataFrame \<Rightarrow> string \<Rightarrow> exn + int list" where
  "groupby_size df key =
     (if key \<in> set (columns df) then
        Inr (map (\<lambda>k. int (length (filter (\<lambda>r. get_cell r key = k) (rows df))))
               (group_keys df key))
      else Inl (KeyError key))"

fun sequence :: "(exn + 'a) list \<Rightarrow> exn + 'a list" where
  "sequence [] = Inr []"
| "sequence (x # xs) =
     (case x of
        Inl e \<Rightarrow> Inl e
      | Inr v \<Rightarrow> (case sequence xs of Inl e \<Rightarrow> Inl e | Inr vs \<Rightarrow> Inr (v # vs)))"

definition groupby_sum :: "DataFrame \<Rightarrow> string \<Rightarrow> string \<Rightarrow> exn + int list" where
  "groupby_sum df key val =
     (if key \<in> set (columns df) then
        (if val \<in> set (columns df) then
           sequence
             (map (\<lambda>k. series_sum
                         (map (\<lambda>r. get_cell r val)
                            (filter (\<lambda>r. get_cell r key = k) (rows df))))
                (group_keys df key))
         else Inl (KeyError val))
      else Inl (KeyError key))"

section \<open>Projects tab\<close>

text \<open>
  Lines 494 to 522: the four KPI cards, each a function of the frames it reads. A card
  that raises is \<open>Inl\<close>.
\<close>

definition active_projects_kpi :: "DataFrame \<Rightarrow> exn + metric" where
  "active_projects_kpi fp = Inr (Number (if \<not> empty_df fp then int (len fp) else 0))"

definition avg_team_size_kpi :: "DataFrame \<Rightarrow> DataFrame \<Rightarrow> exn + metric" where
  "avg_team_size_kpi fp assignments =
     (if \<not> empty_df fp \<and> ''project_manager'' \<in> set (columns fp) then
        (case (if \<not> empty_df assignments then
                 (case groupby_size assignments ''project_id'' of
                    Inl e \<Rightarrow> Inl e
                  | Inr project_team_sizes \<Rightarrow>
                      Inr (if length project_team_sizes > 0 then mean project_team_sizes
                           else 0))
               else Inr 0) of
           Inl e \<Rightarrow> Inl e
         | Inr avg_team_size \<Rightarrow> Inr (Text (fmt1 avg_team_size)))
      else Inr (Text ''N/A''))"

definition projects_per_company_kpi :: "DataFrame \<Rightarrow> DataFrame \<Rightarrow> exn + metric" where
  "projects_per_company_kpi companies fp =
     (if \<not> empty_df companies \<and> \<not> empty_df fp then
        Inr (Text (fmt1 (if len companies > 0 then of_nat (len fp) / of_nat (len companies)
                         else 0)))
      else Inr (Text ''N/A''))"

definition donated_kpi :: "DataFrame \<Rightarrow> exn + metric" where
  "donated_kpi fp =
     (if \<not> empty_df fp \<and> ''donated'' \<in> set (columns fp) then
        (case (if ''donated'' \<in> set (columns fp) then
                 (case getitem fp ''donated'' of Inl e \<Rightarrow> Inl e | Inr c \<Rightarrow> series_sum c)
               else Inr 0) of
           Inl e \<Rightarrow> Inl e
         | Inr donated_count \<Rightarrow>
             Inr (Text (fmt1 (if len fp > 0 then of_int donated_count / of_nat (len fp) * 100
                              else 0) @ ''%'')))
      else Inr (Text ''N/A''))"

section \<open>Members tab\<close>

text \<open>
  \<^verbatim>\<open>Series.str.contains(pat, case=False, na=False)\<close> with a pattern of letters only:
  the pattern occurs in the cell's string, letter case ignored (ASCII letters in the
  model); a cell that is not a string gives \<^verbatim>\<open>False\<close>. pandas offers the
  \<^verbatim>\<open>.str\<close> accessor on a column it takes for strings and raises
  \<^verbatim>\<open>AttributeError\<close> otherwise; the model takes a column that holds a string, or
  missing values only, for such a column.
\<close>

definition lower :: "char \<Rightarrow> char" where
  "lower c =
     (case map_of (zip ''ABCDEFGHIJKLMNOPQRSTUVWXYZ'' ''abcdefghijklmnopqrstuvwxyz'') c of
        None \<Rightarrow> c
      | Some l \<Rightarrow> l)"

fun contains :: "string \<Rightarrow> string \<Rightarrow> bool" where
  "contains pat [] = (pat = [])"
| "contains pat (c # cs) = (take (length pat) (c # cs) = pat \<or> contains pat cs)"

fun is_str :: "cell \<Rightarrow> bool" where
  "is_str (VStr s) = True"
| "is_str c = False"

definition has_str_accessor :: "cell list \<Rightarrow> bool" where
  "has_str_accessor col = (list_ex is_str col \<or> list_all (\<lambda>c. c = VNull) col)"

fun cell_contains :: "string \<Rightarrow> cell \<Rightarrow> bool" where
  "cell_contains pat (VStr s) = contains (map lower pat) (map lower s)"
| "cell_contains pat c = False"

definition str_contains :: "cell list \<Rightarrow> string \<Rightarrow> exn + bool list" where
  "str_contains col pat =
     (if has_str_accessor col then Inr (map (cell_contains pat) col) else Inl AttributeError)"

text \<open>Lines 602 to 608. \<^verbatim>\<open>len(df[mask])\<close> counts the rows the mask keeps.\<close>

definition associates_analysts_kpi :: "DataFrame \<Rightarrow> exn + metric" where
  "associates_analysts_kpi members =
     (if \<not> empty_df members \<and> ''role'' \<in> set (columns members) then
        (case getitem members ''role'' of
           Inl e \<Rightarrow> Inl e
         | Inr role \<Rightarrow>
            (case str_contains role ''Associate'' of
               Inl e \<Rightarrow> Inl e
             | Inr m1 \<Rightarrow>
                (case str_contains role ''Analyst'' of
                   Inl e \<Rightarrow> Inl e
                 | Inr m2 \<Rightarrow>
                     (let associates = int (length (filter id m1));
                          analysts = int (length (filter id m2))
                      in Inr (Number (associates + analysts))))))
      else Inr (Text ''N/A''))"

section \<open>GBMs tab\<close>

text \<open>Lines 789 to 807.\<close>

definition gbm_attendance_kpi :: "DataFrame \<Rightarrow> DataFrame \<Rightarrow> exn + metric" where
  "gbm_attendance_kpi attendance members =
     (if \<not> empty_df attendance \<and> \<not> empty_df members then
        (let total_possible = len attendance
         in case (if ''status'' \<in> set (columns attendance) then
                    (case getitem attendance ''status'' of
                       Inl e \<Rightarrow> Inl e
                     | Inr c \<Rightarrow> series_sum c)
                  else Inr 0) of
              Inl e \<Rightarrow> Inl e
            | Inr attended \<Rightarrow>
                Inr (Text (fmt1 (if total_possible > 0
                                 then of_int attended / of_nat total_possible * 100
                                 else 0) @ ''%'')))
      else Inr (Text ''N/A''))"

definition avg_attendance_kpi :: "DataFrame \<Rightarrow> DataFrame \<Rightarrow> exn + metric" where
  "avg_attendance_kpi attendance members =
     (if \<not> empty_df attendance \<and> \<not> empty_df members then
        (if ''gbm_id'' \<in> set (columns attendance) \<and> ''status'' \<in> set (columns attendance) then
           (case groupby_sum attendance ''gbm_id'' ''status'' of
              Inl e \<Rightarrow> Inl e
            | Inr gbm_attendance \<Rightarrow>
                Inr (Text (fmt1 (if length gbm_attendance > 0 then mean gbm_attendance
                                 else 0))))
         else Inr (Text ''N/A''))
      else Inr (Text ''N/A''))"

section \<open>Example inputs\<close>

definition configured_env :: env where
  "configured_env = \<lparr>SUPABASE_URL = Some ''https://tcg.example'', SUPABASE_KEY = Some ''key''\<rparr>"

definition fresh_app :: app where
  "fresh_app = \<lparr>shown = [], backend_calls = [], cache = []\<rparr>"

text \<open>A backend that is down, and one that answers the first call only.\<close>

definition failing_backend :: backend where
  "failing_backend n t = Inl (Exception ''connection refused'')"


text \<open>Tables for the examples below.\<close>

definition no_quarter_projects :: DataFrame where
  "no_quarter_projects =
     pd_DataFrame [[(''id'', VInt 1), (''project_manager'', VStr ''Ana'')],
                   [(''id'', VInt 2), (''project_manager'', VStr ''Ben'')]]"

definition two_quarter_projects :: DataFrame where
  "two_quarter_projects =
     pd_DataFrame [[(''id'', VInt 1), (''quarter_id'', VInt 1), (''project_manager'', VStr ''Ana'')],
                   [(''id'', VInt 2), (''quarter_id'', VInt 2), (''project_manager'', VStr ''Ben'')]]"

definition sample_assignments :: DataFrame where
  "sample_assignments =
     pd_DataFrame [[(''project_id'', VInt 1), (''member_id'', VInt 7)],
                   [(''project_id'', VInt 1), (''member_id'', VInt 8)],
                   [(''project_id'', VInt 1), (''member_id'', VInt 9)],
                   [(''project_id'', VInt 2), (''member_id'', VInt 7)]]"

text \<open>A \<^verbatim>\<open>sorted\<close> that never raises and leaves the order as it is.\<close>

definition keep_order :: sorter where
  "keep_order xs = Inr xs"

definition four_roles :: DataFrame where
  "four_roles =
     pd_DataFrame [[(''id'', VInt 1), (''role'', VStr ''Associate'')],
                   [(''id'', VInt 2), (''role'', VStr ''associate'')],
                   [(''id'', VInt 3), (''role'', VStr ''Analyst'')],
                   [(''id'', VInt 4), (''role'', VStr ''Partner'')]]"

definition three_attendances :: DataFrame where
  "three_attendances =
     pd_DataFrame [[(''gbm_id'', VInt 1), (''member_id'', VInt 7), (''status'', VBool True)],
                   [(''gbm_id'', VInt 1), (''member_id'', VInt 8), (''status'', VBool False)],
                   [(''gbm_id'', VInt 2), (''member_id'', VInt 7), (''status'', VBool True)]]"

definition three_donations :: DataFrame where
  "three_donations =
     pd_DataFrame [[(''id'', VInt 1), (''donated'', VBool True)],
                   [(''id'', VInt 2), (''donated'', VBool False)],
                   [(''id'', VInt 3), (''donated'', VBool True)]]"

section \<open>Loaders: what a call leaves behind\<close>



lemma load_secondary_body_returns: "fst (load_secondary_body t E B s) \<noteq> Stopped"
  by (simp add: load_secondary_body_def select_all_def split: sum.splits)



lemma load_secondary_returns:
  "fst (cache_data f (load_secondary_body t E B) s) \<noteq> Stopped"
proof (cases "map_of (cache s) f")
  case None
  then show ?thesis
    using load_secondary_body_returns [of t E B s]
    by (cases "load_secondary_body t E B s")
       (auto simp: cache_data_def split: outcome.splits)
next
  case (Some hit)
  then show ?thesis
    by (cases hit) (simp add: cache_data_def)
qed

lemma and_then_Returned:
  "fst r \<noteq> Stopped \<Longrightarrow> and_then r k = k (case fst r of Returned x \<Rightarrow> x) (snd r)"
  by (cases r) (auto simp: and_then_def split: outcome.splits)

lemma load_all_continues:
  assumes "fst (load_projects E B s) \<noteq> Stopped"
  shows "fst (load_all E B s) \<noteq> Stopped"
  unfolding load_all_def
  using assms
  by (simp add: and_then_Returned load_secondary_returns load_members_def load_companies_def
        load_gbms_def load_attendance_def load_assignments_def)

lemma load_projects_miss_failure:
  assumes "\<not> falsy (SUPABASE_URL E)" and "\<not> falsy (SUPABASE_KEY E)"
    and "map_of (cache s) ''load_projects'' = None"
    and "B (length (backend_calls s)) ''project'' = Inl e"
  shows "load_projects E B s =
           (Returned (pd_DataFrame []),
            s\<lparr>shown := shown s @ [''Error loading project data: '' @ str e],
              backend_calls := backend_calls s @ [''project''],
              cache := (''load_projects'', [''Error loading project data: '' @ str e],
                        pd_DataFrame []) # cache s\<rparr>)"
  using assms
  by (simp add: load_projects_def cache_data_def load_projects_body_def select_all_def
        st_error_def)

lemma load_secondary_miss_failure:
  assumes "\<not> falsy (SUPABASE_URL E)" and "\<not> falsy (SUPABASE_KEY E)"
    and "map_of (cache s) f = None"
    and "B (length (backend_calls s)) t = Inl e"
  shows "cache_data f (load_secondary_body t E B) s =
           (Returned (pd_DataFrame []),
            s\<lparr>backend_calls := backend_calls s @ [t],
              cache := (f, [], pd_DataFrame []) # cache s\<rparr>)"
  using assms
  by (simp add: cache_data_def load_secondary_body_def select_all_def)

lemma load_secondary_failure_shown:
  assumes "T \<noteq> Projects"
    and "\<not> falsy (SUPABASE_URL E)" and "\<not> falsy (SUPABASE_KEY E)"
    and "map_of (cache s) (cache_key T) = None"
    and "B (length (backend_calls s)) (table_name T) = Inl e"
  shows "load T E B s =
           (Returned (pd_DataFrame []),
            s\<lparr>backend_calls := backend_calls s @ [table_name T],
              cache := (cache_key T, [], pd_DataFrame []) # cache s\<rparr>)"
  using assms
  by (cases T)
     (simp_all add: load_members_def load_companies_def load_gbms_def load_attendance_def
        load_assignments_def load_secondary_miss_failure)

text \<open>
  C1, as the code has it. With credentials set and nothing cached, a failed fetch of a
  table makes its loader return the empty frame. For the \<^verbatim>\<open>project\<close> table the loader
  puts the error on the page and the run goes on to the other loaders: it does not stop.
  For each of the five other tables nothing is put on the page.
\<close>

theorem load_projects_fetch_failure:
  assumes "\<not> falsy (SUPABASE_URL E)" and "\<not> falsy (SUPABASE_KEY E)"
    and "map_of (cache s) (cache_key T) = None"
    and "B (length (backend_calls s)) (table_name T) = Inl e"
  shows "fst (load T E B s) = Returned (pd_DataFrame []) \<and>
         (T = Projects \<longrightarrow>
            shown (snd (load T E B s)) = shown s @ [''Error loading project data: '' @ str e] \<and>
            fst (load_all E B s) \<noteq> Stopped) \<and>
         (T \<noteq> Projects \<longrightarrow> shown (snd (load T E B s)) = shown s)"
proof (cases "T = Projects")
  case True
  with assms have r: "load_projects E B s =
      (Returned (pd_DataFrame []),
       s\<lparr>shown := shown s @ [''Error loading project data: '' @ str e],
         backend_calls := backend_calls s @ [''project''],
         cache := (''load_projects'', [''Error loading project data: '' @ str e],
                   pd_DataFrame []) # cache s\<rparr>)"
    by (simp add: load_projects_miss_failure)
  then have "fst (load_projects E B s) \<noteq> Stopped"
    by simp
  then have "fst (load_all E B s) \<noteq> Stopped"
    by (rule load_all_continues)
  with r True show ?thesis
    by simp
next
  case False
  from load_secondary_failure_shown [of T E s B e, OF False assms] False show ?thesis
    by simp
qed

theorem load_projects_fetch_failure_witness:
  "fst (load Projects configured_env failing_backend fresh_app) = Returned (pd_DataFrame []) \<and>
   shown (snd (load Projects configured_env failing_backend fresh_app)) =
     [''Error loading project data: connection refused''] \<and>
   fst (load_all configured_env failing_backend fresh_app) \<noteq> Stopped \<and>
   fst (load Members configured_env failing_backend fresh_app) = Returned (pd_DataFrame []) \<and>
   shown (snd (load Members configured_env failing_backend fresh_app)) = []"
  using load_projects_fetch_failure
          [of configured_env fresh_app Projects failing_backend "Exception ''connection refused''"]
        load_projects_fetch_failure
          [of configured_env fresh_app Members failing_backend "Exception ''connection refused''"]
  by (simp add: configured_env_def fresh_app_def failing_backend_def falsy_def)

text \<open>
  C1 as stated fails: with credentials set and the backend down, the projects loader
  returns and so does the loading of all six tables; the run is not stopped.
\<close>

theorem projects_loader_halts_counterexample:
  "fst (load_projects configured_env failing_backend fresh_app) \<noteq> Stopped \<and>
   fst (load_all configured_env failing_backend fresh_app) \<noteq> Stopped"
  by code_simp



text \<open>
  C5. With credentials set and nothing cached, a fetch of a secondary table that raises
  any error makes its loader return the empty frame; nothing is put on the page, and the
  backend was called once, with no second attempt.
\<close>

theorem secondary_fetch_failure_recovered:
  assumes "T \<noteq> Projects"
    and "\<not> falsy (SUPABASE_URL E)" and "\<not> falsy (SUPABASE_KEY E)"
    and "map_of (cache s) (cache_key T) = None"
    and "B (length (backend_calls s)) (table_name T) = Inl e"
  shows "fst (load T E B s) = Returned (pd_DataFrame []) \<and>
         shown (snd (load T E B s)) = shown s \<and>
         backend_calls (snd (load T E B s)) = backend_calls s @ [table_name T]"
  using load_secondary_failure_shown [of T E s B e, OF assms]
  by simp

theorem secondary_fetch_failure_recovered_witness:
  "fst (load Attendance configured_env failing_backend fresh_app) = Returned (pd_DataFrame []) \<and>
   shown (snd (load Attendance configured_env failing_backend fresh_app)) = [] \<and>
   backend_calls (snd (load Attendance configured_env failing_backend fresh_app)) = [''attendance'']"
  using secondary_fetch_failure_recovered
          [of Attendance configured_env fresh_app failing_backend "Exception ''connection refused''"]
  by (simp add: configured_env_def fresh_app_def failing_backend_def falsy_def)

section \<open>Quarter filter: select all by default\<close>

lemma filtered_projects_empty: "empty_df p \<Longrightarrow> filtered_projects p sel = p"
  by (simp add: filtered_projects_def)

lemma filtered_projects_columns: "columns (filtered_projects p sel) = columns p"
  by (simp add: filtered_projects_def)

text \<open>
  C3. On a projects frame that is not empty, the filter step returns the frame as it is
  when no quarter is selected or when the frame has no \<^verbatim>\<open>quarter_id\<close> column; and
  without that column the script creates no quarter multi-select, so that no option is
  offered and the selection is the empty list.
\<close>

theorem filter_unchanged:
  assumes "\<not> empty_df p"
  shows "(selected = [] \<or> ''quarter_id'' \<notin> set (columns p) \<longrightarrow> filtered_projects p selected = p) \<and>
         (''quarter_id'' \<notin> set (columns p) \<longrightarrow>
            quarter_widget srt p = Inr None \<and> selected_quarters srt choice p = Inr [])"
  by (auto simp: filtered_projects_def quarter_widget_def selected_quarters_def)

theorem filter_unchanged_witness:
  "\<not> empty_df no_quarter_projects \<and>
   filtered_projects no_quarter_projects [VInt 1] = no_quarter_projects \<and>
   filtered_projects two_quarter_projects [] = two_quarter_projects \<and>
   quarter_widget keep_order no_quarter_projects = Inr None \<and>
   selected_quarters keep_order (Some [VInt 1]) no_quarter_projects = Inr []"
proof -
  have a: "\<not> empty_df no_quarter_projects" and b: "\<not> empty_df two_quarter_projects"
    and c: "''quarter_id'' \<notin> set (columns no_quarter_projects)"
    by code_simp+
  from filter_unchanged [OF a, of "[VInt 1]" keep_order "Some [VInt 1]"]
       filter_unchanged [OF b, of "[]" keep_order None] a c
  show ?thesis
    by simp
qed

section \<open>Projects tab: KPI cards\<close>

text \<open>
  C2, as the code has it. On an empty projects frame, whatever the quarter selection,
  no card raises; Avg Team Size, Projects per Company and Donated Projects show
  \<^verbatim>\<open>N/A\<close>, and Active Projects shows the number 0.
\<close>

theorem empty_projects_kpis:
  assumes "empty_df p"
  shows "active_projects_kpi (filtered_projects p sel) = Inr (Number 0) \<and>
         avg_team_size_kpi (filtered_projects p sel) assignments = Inr (Text ''N/A'') \<and>
         projects_per_company_kpi companies (filtered_projects p sel) = Inr (Text ''N/A'') \<and>
         donated_kpi (filtered_projects p sel) = Inr (Text ''N/A'')"
  using assms
  by (simp add: filtered_projects_empty active_projects_kpi_def avg_team_size_kpi_def
        projects_per_company_kpi_def donated_kpi_def)

theorem empty_projects_kpis_witness:
  "active_projects_kpi (filtered_projects (pd_DataFrame []) []) = Inr (Number 0) \<and>
   avg_team_size_kpi (filtered_projects (pd_DataFrame []) []) sample_assignments = Inr (Text ''N/A'') \<and>
   projects_per_company_kpi no_quarter_projects (filtered_projects (pd_DataFrame []) []) = Inr (Text ''N/A'') \<and>
   donated_kpi (filtered_projects (pd_DataFrame []) []) = Inr (Text ''N/A'')"
proof -
  have "empty_df (pd_DataFrame [])"
    by (simp add: empty_df_def pd_DataFrame_def unique_def)
  from empty_projects_kpis [OF this] show ?thesis
    by blast
qed

text \<open>
  C2 as stated fails on the frame of a failed or empty fetch: the Active Projects card
  shows 0, which is not the sentinel.
\<close>

theorem active_projects_not_sentinel_counterexample:
  "empty_df (pd_DataFrame []) \<and>
   active_projects_kpi (filtered_projects (pd_DataFrame []) []) = Inr (Number 0) \<and>
   active_projects_kpi (filtered_projects (pd_DataFrame []) []) \<noteq> Inr (Text ''N/A'')"
  by code_simp

text \<open>
  One decimal of a value near \<open>200 / 3\<close>: an error far above that of a float
  division leaves the digits as they are.
\<close>

lemma round_half_even_between:
  assumes "of_int n - 1 / 2 < x" and "x < of_int n + 1 / 2"
  shows "round_half_even x = n"
proof -
  have "\<lfloor>x\<rfloor> = n - 1 \<or> \<lfloor>x\<rfloor> = n"
    using assms by linarith
  then show ?thesis
  proof
    assume f: "\<lfloor>x\<rfloor> = n - 1"
    then have "1 / 2 < x - of_int (n - 1)"
      using assms by simp
    with f show ?thesis
      by (simp add: round_half_even_def Let_def)
  next
    assume f: "\<lfloor>x\<rfloor> = n"
    then have "x - of_int n < 1 / 2"
      using assms by simp
    with f show ?thesis
      by (simp add: round_half_even_def Let_def)
  qed
qed

lemma show_66: "show_nat 66 = ''66''"
  by code_simp

lemma digit_7: "digit 7 = CHR ''7''"
  by code_simp

lemma fmt1_near_two_thirds:
  assumes "\<bar>x - 200 / 3\<bar> < 1 / 100"
  shows "fmt1 x = ''66.7''"
proof -
  have b: "200 / 3 - 1 / 100 < x" "x < 200 / 3 + 1 / 100"
    using assms by linarith+
  have pos: "0 < x"
    using b by linarith
  have lo: "of_int 667 - 1 / 2 < \<bar>x\<bar> * 10" and hi: "\<bar>x\<bar> * 10 < of_int 667 + 1 / 2"
    using b pos by simp_all
  have "round_half_even (\<bar>x\<bar> * 10) = 667"
    using lo hi by (rule round_half_even_between)
  with pos show ?thesis
    by (simp add: fmt1_def Let_def show_66 digit_7)
qed

lemma fmt1_two_thirds: "fmt1 (2 / 3 * 100) = ''66.7''"
  by code_simp

lemma fmt1_one: "fmt1 1 = ''1.0''"
  by code_simp

lemma getitem_Inr:
  assumes "getitem df c = Inr vs"
  shows "c \<in> set (columns df)" and "map (\<lambda>r. get_cell r c) (rows df) = vs"
    and "length (rows df) = length vs"
  using assms by (auto simp: getitem_def split: if_splits)

lemma getitem_nonempty:
  assumes "getitem df c = Inr (v # vs)"
  shows "\<not> empty_df df"
  using getitem_Inr [OF assms] by (auto simp: empty_df_def)

text \<open>
  C8. A filtered projects frame whose \<^verbatim>\<open>donated\<close> column is True, False, True
  shows 66.7 percent on the Donated Projects card.
\<close>

theorem donated_example:
  assumes "getitem fp ''donated'' = Inr [VBool True, VBool False, VBool True]"
  shows "donated_kpi fp = Inr (Text ''66.7%'')"
proof -
  have ne: "\<not> empty_df fp" and col: "''donated'' \<in> set (columns fp)"
    and n: "len fp = 3"
    using getitem_nonempty [OF assms] getitem_Inr(1,3) [OF assms] by (simp_all add: len_def)
  show ?thesis
    using ne col n fmt1_two_thirds
    by (simp add: donated_kpi_def assms)
qed

theorem donated_example_witness:
  "donated_kpi three_donations = Inr (Text ''66.7%'')"
proof -
  have "getitem three_donations ''donated'' = Inr [VBool True, VBool False, VBool True]"
    by code_simp
  then show ?thesis
    by (rule donated_example)
qed

text \<open>
  C10. Two quarter selections over the same projects and assignments frames, each
  leaving a filtered frame that is not empty and has a \<^verbatim>\<open>project_manager\<close> column,
  show the same Avg Team Size: the card reads the filtered frame in its guard only.
\<close>

theorem avg_team_size_ignores_quarters:
  assumes "\<not> empty_df (filtered_projects p sel1)" and "\<not> empty_df (filtered_projects p sel2)"
    and "''project_manager'' \<in> set (columns (filtered_projects p sel1))"
    and "''project_manager'' \<in> set (columns (filtered_projects p sel2))"
  shows "avg_team_size_kpi (filtered_projects p sel1) assignments =
         avg_team_size_kpi (filtered_projects p sel2) assignments"
  using assms
  by (simp add: avg_team_size_kpi_def)

theorem avg_team_size_ignores_quarters_witness:
  "filtered_projects two_quarter_projects [VInt 1] \<noteq> filtered_projects two_quarter_projects [VInt 2] \<and>
   avg_team_size_kpi (filtered_projects two_quarter_projects [VInt 1]) sample_assignments = Inr (Text ''2.0'') \<and>
   avg_team_size_kpi (filtered_projects two_quarter_projects [VInt 2]) sample_assignments = Inr (Text ''2.0'')"
proof -
  have h: "\<not> empty_df (filtered_projects two_quarter_projects [VInt 1])"
    "\<not> empty_df (filtered_projects two_quarter_projects [VInt 2])"
    "''project_manager'' \<in> set (columns (filtered_projects two_quarter_projects [VInt 1]))"
    "''project_manager'' \<in> set (columns (filtered_projects two_quarter_projects [VInt 2]))"
    by code_simp+
  have d: "filtered_projects two_quarter_projects [VInt 1] \<noteq> filtered_projects two_quarter_projects [VInt 2]"
    by code_simp
  have v: "avg_team_size_kpi (filtered_projects two_quarter_projects [VInt 1]) sample_assignments = Inr (Text ''2.0'')"
    by code_simp
  from avg_team_size_ignores_quarters [OF h, of sample_assignments] d v show ?thesis
    by simp
qed

section \<open>Members tab: roles\<close>

text \<open>
  The match is that of a substring: \<open>contains pat s\<close> holds exactly when
  \<open>pat\<close> occurs in \<open>s\<close>.
\<close>

lemma contains_iff: "contains pat s \<longleftrightarrow> (\<exists>u v. s = u @ pat @ v)"
proof (induction s)
  case Nil
  then show ?case by auto
next
  case (Cons c cs)
  have "take (length pat) (c # cs) = pat \<longleftrightarrow> (\<exists>v. c # cs = pat @ v)"
    by (metis append_eq_conv_conj append_take_drop_id)
  moreover have "(\<exists>u v. c # cs = u @ pat @ v) \<longleftrightarrow>
                 (\<exists>v. c # cs = pat @ v) \<or> (\<exists>u v. cs = u @ pat @ v)"
  proof
    assume "\<exists>u v. c # cs = u @ pat @ v"
    then obtain u v where uv: "c # cs = u @ pat @ v" by blast
    show "(\<exists>v. c # cs = pat @ v) \<or> (\<exists>u v. cs = u @ pat @ v)"
    proof (cases u)
      case Nil
      with uv show ?thesis by auto
    next
      case (Cons a u')
      with uv have "cs = u' @ pat @ v" by simp
      then show ?thesis by blast
    qed
  next
    assume "(\<exists>v. c # cs = pat @ v) \<or> (\<exists>u v. cs = u @ pat @ v)"
    then show "\<exists>u v. c # cs = u @ pat @ v"
    proof
      assume "\<exists>v. c # cs = pat @ v"
      then obtain v where "c # cs = [] @ pat @ v" by auto
      then show ?thesis by blast
    next
      assume "\<exists>u v. cs = u @ pat @ v"
      then obtain u v where "c # cs = (c # u) @ pat @ v" by auto
      then show ?thesis by blast
    qed
  qed
  ultimately show ?case
    using Cons.IH by simp
qed

lemma four_roles_masks:
  "str_contains [VStr ''Associate'', VStr ''associate'', VStr ''Analyst'', VStr ''Partner'']
     ''Associate'' = Inr [True, True, False, False]"
  "str_contains [VStr ''Associate'', VStr ''associate'', VStr ''Analyst'', VStr ''Partner'']
     ''Analyst'' = Inr [False, False, True, False]"
  by code_simp+

text \<open>
  C6. A members frame whose \<^verbatim>\<open>role\<close> column is Associate, associate, Analyst,
  Partner shows 3 on the Associates and Analysts card: two rows match
  \<^verbatim>\<open>Associate\<close> whatever the letter case, one matches \<^verbatim>\<open>Analyst\<close>.
\<close>

theorem associates_analysts_example:
  assumes "getitem members ''role'' =
             Inr [VStr ''Associate'', VStr ''associate'', VStr ''Analyst'', VStr ''Partner'']"
  shows "associates_analysts_kpi members = Inr (Number 3)"
proof -
  have ne: "\<not> empty_df members" and col: "''role'' \<in> set (columns members)"
    using getitem_nonempty [OF assms] getitem_Inr(1) [OF assms] by simp_all
  show ?thesis
    using ne col
    by (simp add: associates_analysts_kpi_def assms four_roles_masks)
qed

theorem associates_analysts_example_witness:
  "associates_analysts_kpi four_roles = Inr (Number 3)"
proof -
  have "getitem four_roles ''role'' =
          Inr [VStr ''Associate'', VStr ''associate'', VStr ''Analyst'', VStr ''Partner'']"
    by code_simp
  then show ?thesis
    by (rule associates_analysts_example)
qed

section \<open>GBMs tab: attendance\<close>

text \<open>
  C7. An attendance frame of the three rows (1, True), (1, False), (2, True) in
  \<^verbatim>\<open>gbm_id\<close> and \<^verbatim>\<open>status\<close>, with a members frame that is not empty,
  shows 1.0 on the Avg Attendance/GBM card: the mean of the sums 1 and 1.
\<close>

theorem avg_attendance_example:
  assumes "map (\<lambda>r. (get_cell r ''gbm_id'', get_cell r ''status'')) (rows attendance) =
             [(VInt 1, VBool True), (VInt 1, VBool False), (VInt 2, VBool True)]"
    and "''gbm_id'' \<in> set (columns attendance)" and "''status'' \<in> set (columns attendance)"
    and "\<not> empty_df members"
  shows "avg_attendance_kpi attendance members = Inr (Text ''1.0'')"
proof -
  from assms(1) obtain r1 r2 r3 where rs: "rows attendance = [r1, r2, r3]"
    and c1: "get_cell r1 ''gbm_id'' = VInt 1" "get_cell r1 ''status'' = VBool True"
    and c2: "get_cell r2 ''gbm_id'' = VInt 1" "get_cell r2 ''status'' = VBool False"
    and c3: "get_cell r3 ''gbm_id'' = VInt 2" "get_cell r3 ''status'' = VBool True"
    by (auto simp: map_eq_Cons_conv)
  have ne: "\<not> empty_df attendance"
    using rs assms(2) by (auto simp: empty_df_def)
  have keys: "group_keys attendance ''gbm_id'' = [VInt 1, VInt 2]"
    by (simp add: group_keys_def unique_def rs c1 c2 c3)
  have sums: "groupby_sum attendance ''gbm_id'' ''status'' = Inr [1, 1]"
    by (simp add: groupby_sum_def assms(2,3) keys rs c1 c2 c3)
  show ?thesis
    using ne assms(2-4) fmt1_one
    by (simp add: avg_attendance_kpi_def sums mean_def)
qed

theorem avg_attendance_example_witness:
  "avg_attendance_kpi three_attendances four_roles = Inr (Text ''1.0'')"
proof -
  have "map (\<lambda>r. (get_cell r ''gbm_id'', get_cell r ''status'')) (rows three_attendances) =
             [(VInt 1, VBool True), (VInt 1, VBool False), (VInt 2, VBool True)]"
    and "''gbm_id'' \<in> set (columns three_attendances)"
    and "''status'' \<in> set (columns three_attendances)"
    and "\<not> empty_df four_roles"
    by code_simp+
  then show ?thesis
    by (rule avg_attendance_example)
qed

text \<open>
  C9. With an attendance frame that is not empty, an empty members frame makes both the
  GBM Attendance card and the Avg Attendance/GBM card show \<^verbatim>\<open>N/A\<close>; and two
  members frames that are not empty give the same cards, the members frame being read
  in the guard only.
\<close>

theorem attendance_kpis_need_members:
  assumes "\<not> empty_df attendance"
  shows "(empty_df members \<longrightarrow>
            gbm_attendance_kpi attendance members = Inr (Text ''N/A'') \<and>
            avg_attendance_kpi attendance members = Inr (Text ''N/A'')) \<and>
         (\<not> empty_df members \<and> \<not> empty_df members' \<longrightarrow>
            gbm_attendance_kpi attendance members = gbm_attendance_kpi attendance members' \<and>
            avg_attendance_kpi attendance members = avg_attendance_kpi attendance members')"
  by (simp add: gbm_attendance_kpi_def avg_attendance_kpi_def)

theorem attendance_kpis_need_members_witness:
  "\<not> empty_df three_attendances \<and> empty_df (pd_DataFrame []) \<and>
   gbm_attendance_kpi three_attendances (pd_DataFrame []) = Inr (Text ''N/A'') \<and>
   avg_attendance_kpi three_attendances (pd_DataFrame []) = Inr (Text ''N/A'') \<and>
   \<not> empty_df four_roles \<and> \<not> empty_df three_donations \<and>
   gbm_attendance_kpi three_attendances three_donations = Inr (Text ''66.7%'') \<and>
   avg_attendance_kpi three_attendances three_donations = Inr (Text ''1.0'')"
proof -
  have a: "\<not> empty_df three_attendances" and e: "empty_df (pd_DataFrame [])"
    and m: "\<not> empty_df four_roles" "\<not> empty_df three_donations"
    by code_simp+
  have v: "gbm_attendance_kpi three_attendances four_roles = Inr (Text ''66.7%'')"
    "avg_attendance_kpi three_attendances four_roles = Inr (Text ''1.0'')"
    by code_simp+
  from attendance_kpis_need_members [OF a, of "pd_DataFrame []"]
       attendance_kpis_need_members [OF a, of four_roles three_donations] a e m v
  show ?thesis
    by simp
qed

end
